theory Spec2Isabelle
  imports Complex_Main "HOL-Library.AList"
begin

text \<open>
  The Open-Meteo weather SDK (package \<open>openmeteo\<close>, in Go): its error type, its wire and
  domain structs, the conversion between them, and \<open>GetCurrentWeather\<close> with its
  validation, its admission semaphore and its request, followed by the properties proved
  of them.
\<close>

section \<open>Data model\<close>

subsection \<open>float64\<close>

text \<open>
  Go's \<open>float64\<close>: the finite values are taken as the reals they denote, next to the two
  infinities and NaN (a decimal literal stands for the value nearest to it). The source only
  compares and copies such values; the comparisons follow IEEE 754: every ordered
  comparison with NaN is false.
\<close>

datatype float64 = Fin real | PosInf | NegInf | NaN

fun f64_less :: "float64 \<Rightarrow> float64 \<Rightarrow> bool" where
  "f64_less NaN _ = False"
| "f64_less _ NaN = False"
| "f64_less (Fin a) (Fin b) = (a < b)"
| "f64_less (Fin _) PosInf = True"
| "f64_less (Fin _) NegInf = False"
| "f64_less PosInf _ = False"
| "f64_less NegInf NegInf = False"
| "f64_less NegInf _ = True"

definition f64_greater :: "float64 \<Rightarrow> float64 \<Rightarrow> bool" where
  "f64_greater a b = f64_less b a"


subsection \<open>errors.go\<close>

datatype ErrorType = ErrorTypeValidation | ErrorTypeNetwork | ErrorTypeAPI

text \<open>
  A value of Go's \<open>error\<close> interface: the two sentinel errors of package \<open>context\<close>, an error
  of some other package (known by its text only), or the SDK's own \<open>*Error\<close> with its
  fields \<open>Type\<close>, \<open>Message\<close> and \<open>Cause\<close> (\<open>None\<close> is a nil cause).
\<close>

datatype go_error =
    Canceled
  | DeadlineExceeded
  | Foreign string
  | Error ErrorType string "go_error option"

fun Unwrap :: "go_error \<Rightarrow> go_error option" where
  "Unwrap (Error t m c) = c"
| "Unwrap _ = None"

text \<open>\<open>errors.As(err, &apiErr)\<close> for a target of type \<open>*Error\<close>: the first \<open>*Error\<close> of the chain.\<close>

fun errors_As :: "go_error \<Rightarrow> (ErrorType \<times> string \<times> go_error option) option" where
  "errors_As (Error t m c) = Some (t, m, c)"
| "errors_As _ = None"

text \<open>\<open>errors.Is(err, target)\<close>: \<open>target\<close> occurs on the chain of \<open>err\<close>.\<close>

fun errors_Is :: "go_error \<Rightarrow> go_error \<Rightarrow> bool" where
  "errors_Is (Error t m c) target =
     (Error t m c = target \<or> (case c of None \<Rightarrow> False | Some e \<Rightarrow> errors_Is e target))"
| "errors_Is e target = (e = target)"

subsection \<open>weather.go\<close>

text \<open>
  \<open>time.Time\<close> values as the SDK produces them: a civil date and time in UTC, to the minute.
  The zero value of \<open>time.Time\<close> is January 1, year 1, 00:00 UTC.
\<close>

record Time =
  year :: int
  month :: int
  day :: int
  hour :: int
  minute :: int

definition zero_Time :: Time where
  "zero_Time = \<lparr>year = 1, month = 1, day = 1, hour = 0, minute = 0\<rparr>"

record CurrentWeather =
  Latitude :: float64
  Longitude :: float64
  Time :: Time
  Temperature :: float64
  RelativeHumidity :: float64
  ApparentTemperature :: float64
  IsDay :: bool
  Precipitation :: float64
  Rain :: float64
  Showers :: float64
  Snowfall :: float64
  WeatherCode :: int
  CloudCover :: float64
  PressureMSL :: float64
  SurfacePressure :: float64
  WindSpeed :: float64
  WindDirection :: float64
  WindGusts :: float64

text \<open>
  The wire structs \<open>currentWeatherResponse\<close> and \<open>weatherResponse\<close>. Their Go field names
  repeat those of \<open>CurrentWeather\<close>, so the fields are named here by their JSON tags. A nil
  pointer is \<open>None\<close>.
\<close>

record currentWeatherResponse =
  time :: "string option"
  temperature_2m :: "float64 option"
  wind_speed_10m :: "float64 option"
  wind_direction_10m :: "float64 option"
  weather_code :: "int option"
  is_day :: "int option"
  relative_humidity_2m :: "float64 option"
  apparent_temperature :: "float64 option"
  precipitation :: "float64 option"
  rain :: "float64 option"
  showers :: "float64 option"
  snowfall :: "float64 option"
  cloud_cover :: "float64 option"
  pressure_msl :: "float64 option"
  surface_pressure :: "float64 option"
  wind_gusts_10m :: "float64 option"

record weatherResponse =
  latitude :: float64
  longitude :: float64
  current :: currentWeatherResponse

section \<open>The Go library, as far as the SDK uses it\<close>

subsection \<open>time.Parse with the layout 2006-01-02T15:04\<close>

text \<open>
  \<open>time.Parse("2006-01-02T15:04", value)\<close> of the Go standard library, for this one layout
  (which is the only one the SDK passes). The layout is read as: a four-digit year, \<open>-\<close>, a
  two-digit month, \<open>-\<close>, a two-digit day, \<open>T\<close>, an hour of one or two digits, \<open>:\<close>, a
  two-digit minute, and nothing after. The month must lie in 1..12, the hour in 0..23, the
  minute in 0..59, and the day in the month of that year. The layout names no zone, so the
  result is in UTC. \<open>None\<close> is a parse error.
\<close>

text \<open>\<open>isDigit\<close> and the value \<open>s[i] - '0'\<close> of a digit, on the byte of the character.\<close>

definition digit_val :: "char \<Rightarrow> int option" where
  "digit_val c =
     (let b = (of_char c :: nat) in
      if 48 \<le> b \<and> b \<le> 57 then Some (int b - 48) else None)"

text \<open>\<open>getnum(s, fixed)\<close>: a number of two digits, or of one digit when \<open>fixed\<close> is off.\<close>

fun getnum :: "string \<Rightarrow> bool \<Rightarrow> (int \<times> string) option" where
  "getnum [] fixed = None"
| "getnum [c] fixed =
     (case digit_val c of None \<Rightarrow> None
      | Some a \<Rightarrow> if fixed then None else Some (a, []))"
| "getnum (c # d # rest) fixed =
     (case digit_val c of None \<Rightarrow> None
      | Some a \<Rightarrow>
          (case digit_val d of
             None \<Rightarrow> if fixed then None else Some (a, d # rest)
           | Some b \<Rightarrow> Some (a * 10 + b, rest)))"

text \<open>The four digits of the year.\<close>

fun getyear :: "string \<Rightarrow> (int \<times> string) option" where
  "getyear (a # b # c # d # rest) =
     (case (digit_val a, digit_val b, digit_val c, digit_val d) of
        (Some w, Some x, Some y, Some z) \<Rightarrow> Some (w * 1000 + x * 100 + y * 10 + z, rest)
      | _ \<Rightarrow> None)"
| "getyear _ = None"

text \<open>\<open>skip(value, prefix)\<close> for a prefix of one character that is not a space.\<close>

fun skip :: "string \<Rightarrow> char \<Rightarrow> string option" where
  "skip [] p = None"
| "skip (c # rest) p = (if c = p then Some rest else None)"

definition isLeap :: "int \<Rightarrow> bool" where
  "isLeap y = (y mod 4 = 0 \<and> (y mod 100 \<noteq> 0 \<or> y mod 400 = 0))"

definition daysIn :: "int \<Rightarrow> int \<Rightarrow> int" where
  "daysIn m y =
     (if m = 2 then (if isLeap y then 29 else 28)
      else if m = 4 \<or> m = 6 \<or> m = 9 \<or> m = 11 then 30
      else 31)"

definition time_Parse :: "string \<Rightarrow> Time option" where
  "time_Parse v0 =
     Option.bind (getyear v0) (\<lambda>(y, v1).
     Option.bind (skip v1 (CHR ''-'')) (\<lambda>v2.
     Option.bind (getnum v2 True) (\<lambda>(mo, v3).
     if mo \<le> 0 \<or> 12 < mo then None else
     Option.bind (skip v3 (CHR ''-'')) (\<lambda>v4.
     Option.bind (getnum v4 True) (\<lambda>(d, v5).
     Option.bind (skip v5 (CHR ''T'')) (\<lambda>v6.
     Option.bind (getnum v6 False) (\<lambda>(h, v7).
     if h < 0 \<or> 24 \<le> h then None else
     Option.bind (skip v7 (CHR '':'')) (\<lambda>v8.
     Option.bind (getnum v8 True) (\<lambda>(mi, v9).
     if mi < 0 \<or> 60 \<le> mi then None
     else if v9 \<noteq> [] then None
     else if d < 1 \<or> daysIn mo y < d then None
     else Some \<lparr>year = y, month = mo, day = d, hour = h, minute = mi\<rparr>)))))))))"

text \<open>\<open>t.UTC()\<close>: the same instant with its location set to UTC. The times of this model
  are in UTC already.\<close>

definition UTC :: "Time \<Rightarrow> Time" where
  "UTC t = t"

subsection \<open>fmt.Sprintf with the verb %d\<close>

definition digit_char :: "nat \<Rightarrow> char" where
  "digit_char n = ''0123456789'' ! (n mod 10)"

fun Itoa :: "nat \<Rightarrow> string" where
  "Itoa n = (if n < 10 then [digit_char n] else Itoa (n div 10) @ [digit_char n])"

declare Itoa.simps [simp del]

definition Sprintf_d :: "int \<Rightarrow> string" where
  "Sprintf_d i = (if i < 0 then CHR ''-'' # Itoa (nat (- i)) else Itoa (nat i))"

subsection \<open>context.Context\<close>

text \<open>
  A context as the SDK sees it at the moment of the call: \<open>ctx.Err()\<close> is nil while the
  context is live, and the channel \<open>ctx.Done()\<close> is closed (ready to receive from) exactly
  when \<open>ctx.Err()\<close> is not nil.
\<close>

datatype "context" = Context (Err: "go_error option")

subsection \<open>Buffered channels\<close>

text \<open>
  A \<open>chan struct{}\<close>: the elements carry nothing, so the channel is the number of elements
  in its buffer and its capacity. A send is ready when the buffer is not full. A receive
  takes one element; on an empty buffer it would block, which the SDK rules out by
  receiving only after a send of the same call.
\<close>

record chan =
  chan_len :: nat
  chan_cap :: nat

definition make_chan :: "nat \<Rightarrow> chan" where
  "make_chan n = \<lparr>chan_len = 0, chan_cap = n\<rparr>"

definition send_ready :: "chan \<Rightarrow> bool" where
  "send_ready ch = (chan_len ch < chan_cap ch)"

definition send :: "chan \<Rightarrow> chan" where
  "send ch = ch\<lparr>chan_len := chan_len ch + 1\<rparr>"

definition recv :: "chan \<Rightarrow> chan" where
  "recv ch = ch\<lparr>chan_len := chan_len ch - 1\<rparr>"

subsection \<open>net/url and net/http\<close>

text \<open>
  \<open>url.Values\<close> is a map from a key to its list of values; \<open>Set\<close> replaces the list of a
  key by one value and \<open>Get\<close> returns the first value of a key, or the empty string.

  A URL is kept in parsed form: everything before the query, and the query as \<open>Values\<close>.
  The text of a URL and this form are taken as the same thing, so \<open>u.Query()\<close>,
  \<open>q.Encode()\<close> and \<open>u.String()\<close> do not appear; the server of the tests reads the
  request the same way, with \<open>r.URL.Query().Get(key)\<close>.
\<close>

type_synonym Values = "(string \<times> string list) list"

definition Values_Set :: "Values \<Rightarrow> string \<Rightarrow> string \<Rightarrow> Values" where
  "Values_Set q k v = AList.update k [v] q"

definition Values_Get :: "Values \<Rightarrow> string \<Rightarrow> string" where
  "Values_Get q k = (case map_of q k of None \<Rightarrow> [] | Some [] \<Rightarrow> [] | Some (v # _) \<Rightarrow> v)"

record URL =
  Location :: string
  RawQuery :: Values

record Request =
  Method :: string
  Target :: URL
  Ctx :: "context"

record Response =
  StatusCode :: int
  Body :: string

text \<open>An \<open>http.Client\<close>: its timeout in nanoseconds and the name of its transport
  (\<open>None\<close> is the default transport).\<close>

record http_Client =
  Timeout :: int
  Transport :: "string option"

subsection \<open>What the library and the network answer\<close>

text \<open>
  The parts of a call that the SDK does not decide are parameters of the model, collected in
  one record: which ready case a \<open>select\<close> picks when both the send and \<open>ctx.Done()\<close> are
  ready (Go picks one at random), the parse of the base URL, the formatting of a
  \<open>float64\<close> by \<open>strconv.FormatFloat(x, 'f', -1, 64)\<close> and by the verb \<open>%.2f\<close>, the
  construction of the request, the round trip of the HTTP client, and the JSON decoder.
\<close>

record world =
  select_send :: bool
  url_Parse :: "string \<Rightarrow> go_error + URL"
  FormatFloat :: "float64 \<Rightarrow> string"
  Sprintf_2f :: "float64 \<Rightarrow> string"
  NewRequestWithContext :: "context \<Rightarrow> string \<Rightarrow> URL \<Rightarrow> go_error + Request"
  Do :: "http_Client \<Rightarrow> Request \<Rightarrow> go_error + Response"
  Decode :: "string \<Rightarrow> go_error + weatherResponse"

section \<open>client.go: the Normalizer\<close>

text \<open>
  \<open>convertToCurrentWeather\<close>. The snapshot starts as the zero value of the struct with the
  two coordinates set; each \<open>if p != nil\<close> then overwrites one field (the parse of the
  time is the inner \<open>if err == nil\<close>). The source spells
  the sea-level pressure \<open>cw.SeaLevelPressure\<close> and \<open>PressureMsl\<close> in this function and
  \<open>PressureMSL\<close> in weather.go; it is one field.
\<close>

definition zero_CurrentWeather :: CurrentWeather where
  "zero_CurrentWeather =
     \<lparr>Latitude = Fin 0, Longitude = Fin 0, Time = zero_Time, Temperature = Fin 0,
      RelativeHumidity = Fin 0, ApparentTemperature = Fin 0, IsDay = False,
      Precipitation = Fin 0, Rain = Fin 0, Showers = Fin 0, Snowfall = Fin 0,
      WeatherCode = 0, CloudCover = Fin 0, PressureMSL = Fin 0, SurfacePressure = Fin 0,
      WindSpeed = Fin 0, WindDirection = Fin 0, WindGusts = Fin 0\<rparr>"

text \<open>The statement \<open>if p != nil { body }\<close>, with \<open>*p\<close> handed to the body.\<close>

definition ifNotNil :: "'a option \<Rightarrow> ('a \<Rightarrow> 's \<Rightarrow> 's) \<Rightarrow> 's \<Rightarrow> 's" where
  "ifNotNil p body s = (case p of None \<Rightarrow> s | Some v \<Rightarrow> body v s)"

definition convertToCurrentWeather :: "weatherResponse \<Rightarrow> CurrentWeather" where
  "convertToCurrentWeather apiResp =
     (let r = current apiResp;
          cw = zero_CurrentWeather\<lparr>Latitude := latitude apiResp, Longitude := longitude apiResp\<rparr>;
          cw = ifNotNil (time r) (\<lambda>s. ifNotNil (time_Parse s) (\<lambda>t cw. cw\<lparr>Time := UTC t\<rparr>)) cw;
          cw = ifNotNil (temperature_2m r) (\<lambda>v cw. cw\<lparr>Temperature := v\<rparr>) cw;
          cw = ifNotNil (relative_humidity_2m r) (\<lambda>v cw. cw\<lparr>RelativeHumidity := v\<rparr>) cw;
          cw = ifNotNil (apparent_temperature r) (\<lambda>v cw. cw\<lparr>ApparentTemperature := v\<rparr>) cw;
          cw = ifNotNil (is_day r) (\<lambda>v cw. cw\<lparr>IsDay := (v = 1)\<rparr>) cw;
          cw = ifNotNil (precipitation r) (\<lambda>v cw. cw\<lparr>Precipitation := v\<rparr>) cw;
          cw = ifNotNil (rain r) (\<lambda>v cw. cw\<lparr>Rain := v\<rparr>) cw;
          cw = ifNotNil (showers r) (\<lambda>v cw. cw\<lparr>Showers := v\<rparr>) cw;
          cw = ifNotNil (snowfall r) (\<lambda>v cw. cw\<lparr>Snowfall := v\<rparr>) cw;
          cw = ifNotNil (weather_code r) (\<lambda>v cw. cw\<lparr>WeatherCode := v\<rparr>) cw;
          cw = ifNotNil (cloud_cover r) (\<lambda>v cw. cw\<lparr>CloudCover := v\<rparr>) cw;
          cw = ifNotNil (pressure_msl r) (\<lambda>v cw. cw\<lparr>PressureMSL := v\<rparr>) cw;
          cw = ifNotNil (surface_pressure r) (\<lambda>v cw. cw\<lparr>SurfacePressure := v\<rparr>) cw;
          cw = ifNotNil (wind_speed_10m r) (\<lambda>v cw. cw\<lparr>WindSpeed := v\<rparr>) cw;
          cw = ifNotNil (wind_direction_10m r) (\<lambda>v cw. cw\<lparr>WindDirection := v\<rparr>) cw;
          cw = ifNotNil (wind_gusts_10m r) (\<lambda>v cw. cw\<lparr>WindGusts := v\<rparr>) cw
      in cw)"

section \<open>client.go: the Gateway\<close>

definition defaultBaseURL :: string where
  "defaultBaseURL = ''https://api.open-meteo.com/v1''"

definition defaultTimeout :: int where
  "defaultTimeout = 10 * 1000000000"

definition maxConcurrent :: nat where
  "maxConcurrent = 10"

record Client =
  httpClient :: http_Client
  baseURL :: string
  semaphore :: chan

text \<open>
  The functional options. An \<open>Option\<close> is a closure over \<open>*Client\<close>; the package exports
  three makers of them and the fields of \<open>Client\<close> are not exported, so an option is one
  of these three. \<open>applyOption\<close> is the call \<open>opt(c)\<close>. The \<open>*http.Client\<close> handed to
  \<open>WithHTTPClient\<close> is taken to be not nil.
\<close>

datatype Option = WithTimeout int | WithHTTPClient http_Client | WithBaseURL string

fun applyOption :: "Option \<Rightarrow> Client \<Rightarrow> Client" where
  "applyOption (WithTimeout timeout) c = c\<lparr>httpClient := (httpClient c)\<lparr>Timeout := timeout\<rparr>\<rparr>"
| "applyOption (WithHTTPClient h) c = c\<lparr>httpClient := h\<rparr>"
| "applyOption (WithBaseURL b) c = c\<lparr>baseURL := b\<rparr>"

definition NewClient :: "Option list \<Rightarrow> Client" where
  "NewClient opts =
     fold applyOption opts
       \<lparr>httpClient = \<lparr>Timeout = defaultTimeout, Transport = None\<rparr>,
        baseURL = defaultBaseURL,
        semaphore = make_chan maxConcurrent\<rparr>"

text \<open>The two range checks at the head of \<open>GetCurrentWeather\<close>; \<open>None\<close> is falling through.\<close>

definition validateCoordinates :: "world \<Rightarrow> float64 \<Rightarrow> float64 \<Rightarrow> go_error option" where
  "validateCoordinates w lat lon =
     (if f64_less lat (Fin (- 90)) \<or> f64_greater lat (Fin 90) then
        Some (Error ErrorTypeValidation
               (''invalid latitude: '' @ Sprintf_2f w lat @ '' (must be between -90 and 90)'')
               None)
      else if f64_less lon (Fin (- 180)) \<or> f64_greater lon (Fin 180) then
        Some (Error ErrorTypeValidation
               (''invalid longitude: '' @ Sprintf_2f w lon @ '' (must be between -180 and 180)'')
               None)
      else None)"

text \<open>
  The \<open>select\<close> statement of \<open>GetCurrentWeather\<close>. Its \<open>default\<close> case runs only when
  neither the send on the semaphore nor the receive from \<open>ctx.Done()\<close> is ready; when both
  are ready, one of the two is picked.
\<close>

datatype admission = Acquired | Refused go_error

definition acquire :: "world \<Rightarrow> Client \<Rightarrow> context \<Rightarrow> admission \<times> Client" where
  "acquire w c ctx =
     (case (send_ready (semaphore c), Err ctx) of
        (True, None) \<Rightarrow> (Acquired, c\<lparr>semaphore := send (semaphore c)\<rparr>)
      | (True, Some e) \<Rightarrow>
          (if select_send w then (Acquired, c\<lparr>semaphore := send (semaphore c)\<rparr>)
           else (Refused e, c))
      | (False, Some e) \<Rightarrow> (Refused e, c)
      | (False, None) \<Rightarrow>
          (Refused (Error ErrorTypeValidation
                     (''concurrent request limit exceeded ('' @ Sprintf_d (int maxConcurrent) @ '')'')
                     None), c))"

text \<open>The deferred \<open><-c.semaphore\<close>.\<close>

definition release :: "Client \<Rightarrow> Client" where
  "release c = c\<lparr>semaphore := recv (semaphore c)\<rparr>"

definition buildRequestURL :: "world \<Rightarrow> Client \<Rightarrow> float64 \<Rightarrow> float64 \<Rightarrow> go_error + URL" where
  "buildRequestURL w c lat lon =
     (case url_Parse w (baseURL c @ ''/forecast'') of
        Inl err \<Rightarrow> Inl err
      | Inr u \<Rightarrow>
          (let q = RawQuery u;
               q = Values_Set q ''latitude'' (FormatFloat w lat);
               q = Values_Set q ''longitude'' (FormatFloat w lon);
               q = Values_Set q ''current_weather'' ''true'';
               q = Values_Set q ''temperature_unit'' ''celsius'';
               q = Values_Set q ''windspeed_unit'' ''ms'';
               q = Values_Set q ''precipitation_unit'' ''mm''
           in Inr (u\<lparr>RawQuery := q\<rparr>)))"

text \<open>
  \<open>GetCurrentWeather\<close> from "Build request URL" to its last line, that is, what runs while
  the slot is held. The second component lists the requests handed to the HTTP client: it
  is empty when the call returns before \<open>c.httpClient.Do\<close>. \<open>Body\<close> is what reading
  the body yields; \<open>io.ReadAll\<close>'s error is dropped by the source.
\<close>

definition fetch ::
  "world \<Rightarrow> Client \<Rightarrow> context \<Rightarrow> float64 \<Rightarrow> float64 \<Rightarrow> (go_error + CurrentWeather) \<times> Request list" where
  "fetch w c ctx lat lon =
     (case buildRequestURL w c lat lon of
        Inl err \<Rightarrow>
          (Inl (Error ErrorTypeValidation ''failed to build request URL'' (Some err)), [])
      | Inr reqURL \<Rightarrow>
          (case NewRequestWithContext w ctx ''GET'' reqURL of
             Inl err \<Rightarrow>
               (Inl (Error ErrorTypeNetwork ''failed to create HTTP request'' (Some err)), [])
           | Inr req \<Rightarrow>
               (case Do w (httpClient c) req of
                  Inl err \<Rightarrow>
                    (Inl (Error ErrorTypeNetwork ''failed to execute HTTP request'' (Some err)),
                     [req])
                | Inr resp \<Rightarrow>
                    (if StatusCode resp \<noteq> 200 then
                       (Inl (Error ErrorTypeAPI
                              (''API returned status '' @ Sprintf_d (StatusCode resp) @ '': ''
                                 @ Body resp)
                              None),
                        [req])
                     else
                       (case Decode w (Body resp) of
                          Inl err \<Rightarrow>
                            (Inl (Error ErrorTypeAPI ''failed to parse JSON response'' (Some err)),
                             [req])
                        | Inr apiResp \<Rightarrow> (Inr (convertToCurrentWeather apiResp), [req]))))))"

text \<open>
  One whole call, run alone: the result, the client after the call, and the requests
  issued. The deferred release runs on every return that follows the acquisition.
\<close>

definition GetCurrentWeather ::
  "world \<Rightarrow> Client \<Rightarrow> context \<Rightarrow> float64 \<Rightarrow> float64
     \<Rightarrow> (go_error + CurrentWeather) \<times> Client \<times> Request list" where
  "GetCurrentWeather w c ctx lat lon =
     (case validateCoordinates w lat lon of
        Some e \<Rightarrow> (Inl e, c, [])
      | None \<Rightarrow>
          (case acquire w c ctx of
             (Refused e, c') \<Rightarrow> (Inl e, c', [])
           | (Acquired, c') \<Rightarrow>
               (case fetch w c' ctx lat lon of
                  (res, reqs) \<Rightarrow> (res, release c', reqs))))"

subsection \<open>Calls that overlap\<close>

text \<open>
  Several goroutines calling \<open>GetCurrentWeather\<close> on one client touch the shared client at
  two points only, each of them one channel operation: the \<open>select\<close> at the start and
  the deferred receive at the end. A state is the client together with the calls that hold
  a slot. \<open>enter\<close> is a call that passes validation and acquires a slot; \<open>refuse\<close> is a
  call that returns without one; \<open>leave\<close> is a call in flight returning, with whatever
  result \<open>fetch\<close> gives it, and running its deferred release.
\<close>

type_synonym call = "world \<times> context \<times> float64 \<times> float64"

inductive step :: "Client \<times> call list \<Rightarrow> Client \<times> call list \<Rightarrow> bool" where
  enter:
    "validateCoordinates w lat lon = None \<Longrightarrow>
     acquire w c ctx = (Acquired, c') \<Longrightarrow>
     step (c, calls) (c', (w, ctx, lat, lon) # calls)"
| refuse:
    "validateCoordinates w lat lon = Some e
       \<or> (validateCoordinates w lat lon = None \<and> acquire w c ctx = (Refused e, c')) \<Longrightarrow>
     step (c, calls) (c, calls)"
| leave:
    "k \<in> set calls \<Longrightarrow> step (c, calls) (release c, remove1 k calls)"

definition reachable :: "Option list \<Rightarrow> Client \<times> call list \<Rightarrow> bool" where
  "reachable opts st = step\<^sup>*\<^sup>* (NewClient opts, []) st"

section \<open>The ranges of the specification\<close>


definition latitude_outside :: "float64 \<Rightarrow> bool" where
  "latitude_outside x = (f64_less x (Fin (- 90)) \<or> f64_less (Fin 90) x)"


definition longitude_outside :: "float64 \<Rightarrow> bool" where
  "longitude_outside x = (f64_less x (Fin (- 180)) \<or> f64_less (Fin 180) x)"

section \<open>A mock server\<close>

text \<open>
  Fixtures in the manner of the repository's tests, which run the client against an
  \<open>httptest\<close> server: a world whose URL parser accepts every base URL (with an empty
  query), whose request constructor never fails, whose HTTP client gives a fixed answer and
  whose decoder gives a fixed result. Its formatters know the coordinates used below.
\<close>

definition mock_FormatFloat :: "float64 \<Rightarrow> string" where
  "mock_FormatFloat x =
     (case x of
        Fin r \<Rightarrow>
          (if r = 52.52 then ''52.52'' else if r = 13.41 then ''13.41''
           else if r = 90 then ''90'' else if r = - 180 then ''-180'' else ''0'')
      | PosInf \<Rightarrow> ''+Inf''
      | NegInf \<Rightarrow> ''-Inf''
      | NaN \<Rightarrow> ''NaN'')"

definition mock_Sprintf_2f :: "float64 \<Rightarrow> string" where
  "mock_Sprintf_2f x =
     (case x of
        Fin r \<Rightarrow>
          (if r = 52.52 then ''52.52'' else if r = 13.41 then ''13.41''
           else if r = 91 then ''91.00'' else if r = 181 then ''181.00''
           else ''0.00'')
      | PosInf \<Rightarrow> ''+Inf''
      | NegInf \<Rightarrow> ''-Inf''
      | NaN \<Rightarrow> ''NaN'')"

definition mock_world :: "bool \<Rightarrow> go_error + Response \<Rightarrow> go_error + weatherResponse \<Rightarrow> world" where
  "mock_world pick answer decoded =
     \<lparr>select_send = pick,
      url_Parse = (\<lambda>s. Inr \<lparr>Location = s, RawQuery = []\<rparr>),
      FormatFloat = mock_FormatFloat,
      Sprintf_2f = mock_Sprintf_2f,
      NewRequestWithContext = (\<lambda>ctx m u. Inr \<lparr>Method = m, Target = u, Ctx = ctx\<rparr>),
      Do = (\<lambda>h req. answer),
      Decode = (\<lambda>body. decoded)\<rparr>"

text \<open>The wire response of \<open>TestGetCurrentWeather_Success\<close>, with the coordinates left open.\<close>

definition sample_current :: currentWeatherResponse where
  "sample_current =
     \<lparr>time = Some ''2025-12-29T10:00'', temperature_2m = Some (Fin 15.3),
      wind_speed_10m = Some (Fin 12.5), wind_direction_10m = Some (Fin 270),
      weather_code = Some 3, is_day = Some 1, relative_humidity_2m = Some (Fin 65),
      apparent_temperature = Some (Fin 14.1), precipitation = Some (Fin 0.5),
      rain = Some (Fin 0.3), showers = Some (Fin 0.2), snowfall = Some (Fin 0),
      cloud_cover = Some (Fin 75), pressure_msl = Some (Fin 1013.25),
      surface_pressure = Some (Fin 1010), wind_gusts_10m = Some (Fin 18)\<rparr>"

definition sample_response :: "float64 \<Rightarrow> float64 \<Rightarrow> weatherResponse" where
  "sample_response la lo = \<lparr>latitude = la, longitude = lo, current = sample_current\<rparr>"

text \<open>A wire response with nothing but the time and the temperature.\<close>

definition sparse_current :: "string \<Rightarrow> float64 \<Rightarrow> currentWeatherResponse" where
  "sparse_current s temp =
     \<lparr>time = Some s, temperature_2m = Some temp,
      wind_speed_10m = None, wind_direction_10m = None,
      weather_code = None, is_day = None, relative_humidity_2m = None,
      apparent_temperature = None, precipitation = None,
      rain = None, showers = None, snowfall = None,
      cloud_cover = None, pressure_msl = None,
      surface_pressure = None, wind_gusts_10m = None\<rparr>"

text \<open>A client all of whose slots are held.\<close>

definition busy_client :: Client where
  "busy_client = (NewClient [])\<lparr>semaphore := \<lparr>chan_len = maxConcurrent, chan_cap = maxConcurrent\<rparr>\<rparr>"

section \<open>Properties of the Normalizer\<close>

text \<open>
  A field read after a conditional assignment: unchanged when the body leaves the field
  alone, and in general decided by the pointer.
\<close>

lemma ifNotNil_skip:
  "(\<And>v c. sel (body v c) = sel c) \<Longrightarrow> sel (ifNotNil p body s) = sel s"
  by (cases p) (simp_all add: ifNotNil_def)

lemma ifNotNil_hit:
  "sel (ifNotNil p body s) = (case p of None \<Rightarrow> sel s | Some v \<Rightarrow> sel (body v s))"
  by (cases p) (simp_all add: ifNotNil_def)

text \<open>Each field of the snapshot, read off the chain of assignments.\<close>

lemma conv_Latitude: "Latitude (convertToCurrentWeather a) = latitude a"
  by (simp add: convertToCurrentWeather_def Let_def ifNotNil_skip[of Latitude])

lemma conv_Longitude: "Longitude (convertToCurrentWeather a) = longitude a"
  by (simp add: convertToCurrentWeather_def Let_def ifNotNil_skip[of Longitude])

lemma conv_Time:
  "Time (convertToCurrentWeather a) =
     (case time (current a) of None \<Rightarrow> zero_Time
      | Some s \<Rightarrow> (case time_Parse s of None \<Rightarrow> zero_Time | Some t \<Rightarrow> t))"
  apply (simp add: convertToCurrentWeather_def Let_def ifNotNil_skip[of Time])
  apply (simp add: ifNotNil_def zero_CurrentWeather_def UTC_def split: option.split)
  done

lemma conv_Temperature:
  "Temperature (convertToCurrentWeather a) =
     (case temperature_2m (current a) of None \<Rightarrow> Fin 0 | Some v \<Rightarrow> v)"
  apply (simp add: convertToCurrentWeather_def Let_def ifNotNil_skip[of Temperature])
  apply (subst ifNotNil_hit[of Temperature])
  apply (simp add: ifNotNil_skip[of Temperature] zero_CurrentWeather_def split: option.split)
  done

lemma conv_RelativeHumidity:
  "RelativeHumidity (convertToCurrentWeather a) =
     (case relative_humidity_2m (current a) of None \<Rightarrow> Fin 0 | Some v \<Rightarrow> v)"
  apply (simp add: convertToCurrentWeather_def Let_def ifNotNil_skip[of RelativeHumidity])
  apply (subst ifNotNil_hit[of RelativeHumidity])
  apply (simp add: ifNotNil_skip[of RelativeHumidity] zero_CurrentWeather_def split: option.split)
  done

lemma conv_ApparentTemperature:
  "ApparentTemperature (convertToCurrentWeather a) =
     (case apparent_temperature (current a) of None \<Rightarrow> Fin 0 | Some v \<Rightarrow> v)"
  apply (simp add: convertToCurrentWeather_def Let_def ifNotNil_skip[of ApparentTemperature])
  apply (subst ifNotNil_hit[of ApparentTemperature])
  apply (simp add: ifNotNil_skip[of ApparentTemperature] zero_CurrentWeather_def split: option.split)
  done

lemma conv_IsDay:
  "IsDay (convertToCurrentWeather a) =
     (case is_day (current a) of None \<Rightarrow> False | Some v \<Rightarrow> v = 1)"
  apply (simp add: convertToCurrentWeather_def Let_def ifNotNil_skip[of IsDay])
  apply (subst ifNotNil_hit[of IsDay])
  apply (simp add: ifNotNil_skip[of IsDay] zero_CurrentWeather_def split: option.split)
  done

lemma conv_Precipitation:
  "Precipitation (convertToCurrentWeather a) =
     (case precipitation (current a) of None \<Rightarrow> Fin 0 | Some v \<Rightarrow> v)"
  apply (simp add: convertToCurrentWeather_def Let_def ifNotNil_skip[of Precipitation])
  apply (subst ifNotNil_hit[of Precipitation])
  apply (simp add: ifNotNil_skip[of Precipitation] zero_CurrentWeather_def split: option.split)
  done

lemma conv_Rain:
  "Rain (convertToCurrentWeather a) =
     (case rain (current a) of None \<Rightarrow> Fin 0 | Some v \<Rightarrow> v)"
  apply (simp add: convertToCurrentWeather_def Let_def ifNotNil_skip[of Rain])
  apply (subst ifNotNil_hit[of Rain])
  apply (simp add: ifNotNil_skip[of Rain] zero_CurrentWeather_def split: option.split)
  done

lemma conv_Showers:
  "Showers (convertToCurrentWeather a) =
     (case showers (current a) of None \<Rightarrow> Fin 0 | Some v \<Rightarrow> v)"
  apply (simp add: convertToCurrentWeather_def Let_def ifNotNil_skip[of Showers])
  apply (subst ifNotNil_hit[of Showers])
  apply (simp add: ifNotNil_skip[of Showers] zero_CurrentWeather_def split: option.split)
  done

lemma conv_Snowfall:
  "Snowfall (convertToCurrentWeather a) =
     (case snowfall (current a) of None \<Rightarrow> Fin 0 | Some v \<Rightarrow> v)"
  apply (simp add: convertToCurrentWeather_def Let_def ifNotNil_skip[of Snowfall])
  apply (subst ifNotNil_hit[of Snowfall])
  apply (simp add: ifNotNil_skip[of Snowfall] zero_CurrentWeather_def split: option.split)
  done

lemma conv_WeatherCode:
  "WeatherCode (convertToCurrentWeather a) =
     (case weather_code (current a) of None \<Rightarrow> 0 | Some v \<Rightarrow> v)"
  apply (simp add: convertToCurrentWeather_def Let_def ifNotNil_skip[of WeatherCode])
  apply (subst ifNotNil_hit[of WeatherCode])
  apply (simp add: ifNotNil_skip[of WeatherCode] zero_CurrentWeather_def split: option.split)
  done

lemma conv_CloudCover:
  "CloudCover (convertToCurrentWeather a) =
     (case cloud_cover (current a) of None \<Rightarrow> Fin 0 | Some v \<Rightarrow> v)"
  apply (simp add: convertToCurrentWeather_def Let_def ifNotNil_skip[of CloudCover])
  apply (subst ifNotNil_hit[of CloudCover])
  apply (simp add: ifNotNil_skip[of CloudCover] zero_CurrentWeather_def split: option.split)
  done

lemma conv_PressureMSL:
  "PressureMSL (convertToCurrentWeather a) =
     (case pressure_msl (current a) of None \<Rightarrow> Fin 0 | Some v \<Rightarrow> v)"
  apply (simp add: convertToCurrentWeather_def Let_def ifNotNil_skip[of PressureMSL])
  apply (subst ifNotNil_hit[of PressureMSL])
  apply (simp add: ifNotNil_skip[of PressureMSL] zero_CurrentWeather_def split: option.split)
  done

lemma conv_SurfacePressure:
  "SurfacePressure (convertToCurrentWeather a) =
     (case surface_pressure (current a) of None \<Rightarrow> Fin 0 | Some v \<Rightarrow> v)"
  apply (simp add: convertToCurrentWeather_def Let_def ifNotNil_skip[of SurfacePressure])
  apply (subst ifNotNil_hit[of SurfacePressure])
  apply (simp add: ifNotNil_skip[of SurfacePressure] zero_CurrentWeather_def split: option.split)
  done

lemma conv_WindSpeed:
  "WindSpeed (convertToCurrentWeather a) =
     (case wind_speed_10m (current a) of None \<Rightarrow> Fin 0 | Some v \<Rightarrow> v)"
  apply (simp add: convertToCurrentWeather_def Let_def ifNotNil_skip[of WindSpeed])
  apply (subst ifNotNil_hit[of WindSpeed])
  apply (simp add: ifNotNil_skip[of WindSpeed] zero_CurrentWeather_def split: option.split)
  done

lemma conv_WindDirection:
  "WindDirection (convertToCurrentWeather a) =
     (case wind_direction_10m (current a) of None \<Rightarrow> Fin 0 | Some v \<Rightarrow> v)"
  apply (simp add: convertToCurrentWeather_def Let_def ifNotNil_skip[of WindDirection])
  apply (subst ifNotNil_hit[of WindDirection])
  apply (simp add: ifNotNil_skip[of WindDirection] zero_CurrentWeather_def split: option.split)
  done

lemma conv_WindGusts:
  "WindGusts (convertToCurrentWeather a) =
     (case wind_gusts_10m (current a) of None \<Rightarrow> Fin 0 | Some v \<Rightarrow> v)"
  apply (simp add: convertToCurrentWeather_def Let_def ifNotNil_skip[of WindGusts])
  apply (subst ifNotNil_hit[of WindGusts])
  apply (simp add: ifNotNil_skip[of WindGusts] zero_CurrentWeather_def split: option.split)
  done

lemmas conv_fields =
  conv_Latitude conv_Longitude conv_Time conv_Temperature conv_RelativeHumidity
  conv_ApparentTemperature conv_IsDay conv_Precipitation conv_Rain conv_Showers
  conv_Snowfall conv_WeatherCode conv_CloudCover conv_PressureMSL conv_SurfacePressure
  conv_WindSpeed conv_WindDirection conv_WindGusts

lemma time_Parse_sample:
  "time_Parse ''2025-12-29T10:00'' =
     Some \<lparr>year = 2025, month = 12, day = 29, hour = 10, minute = 0\<rparr>"
  by (simp add: time_Parse_def digit_val_def daysIn_def Let_def)

text \<open>
  C7. For every wire response, the day/night flag of the snapshot is true exactly when
  \<open>is_day\<close> is present and equal to 1; any other present value, and absence, give false.
\<close>

theorem is_day_flag:
  "IsDay (convertToCurrentWeather apiResp) = (is_day (current apiResp) = Some 1)"
  by (simp add: conv_IsDay split: option.split)

theorem is_day_flag_witness:
  "IsDay (convertToCurrentWeather (sample_response (Fin 52.52) (Fin 13.41)))
   \<and> \<not> IsDay (convertToCurrentWeather
               \<lparr>latitude = Fin 0, longitude = Fin 0,
                current = (sparse_current ''2025-12-29T10:00'' (Fin 15.3))\<lparr>is_day := Some 2\<rparr>\<rparr>)
   \<and> \<not> IsDay (convertToCurrentWeather
               \<lparr>latitude = Fin 0, longitude = Fin 0,
                current = (sparse_current ''2025-12-29T10:00'' (Fin 15.3))\<lparr>is_day := Some (- 1)\<rparr>\<rparr>)
   \<and> \<not> IsDay (convertToCurrentWeather
               \<lparr>latitude = Fin 0, longitude = Fin 0,
                current = sparse_current ''2025-12-29T10:00'' (Fin 15.3)\<rparr>)"
  using is_day_flag [of "sample_response (Fin 52.52) (Fin 13.41)"]
    is_day_flag [of "\<lparr>latitude = Fin 0, longitude = Fin 0,
                current = (sparse_current ''2025-12-29T10:00'' (Fin 15.3))\<lparr>is_day := Some 2\<rparr>\<rparr>"]
    is_day_flag [of "\<lparr>latitude = Fin 0, longitude = Fin 0,
                current = (sparse_current ''2025-12-29T10:00'' (Fin 15.3))\<lparr>is_day := Some (- 1)\<rparr>\<rparr>"]
    is_day_flag [of "\<lparr>latitude = Fin 0, longitude = Fin 0,
                current = sparse_current ''2025-12-29T10:00'' (Fin 15.3)\<rparr>"]
  by (simp add: sample_response_def sample_current_def sparse_current_def)

text \<open>
  C6. Normalization is a total function into snapshots (its type has no error): for every
  wire response each present field is copied and each absent field gives the zero value of
  its type, \<open>0.0\<close> for the floating-point fields, \<open>0\<close> for the weather code, false for
  the day/night flag, and the zero time for a timestamp that is absent or does not parse.
  In particular a wire response with nothing but a time and a temperature gives a snapshot
  with that temperature, zero in every other numeric field and false for the flag.
\<close>

theorem normalize_zero_defaults:
  "convertToCurrentWeather apiResp =
     \<lparr>Latitude = latitude apiResp,
      Longitude = longitude apiResp,
      Time = (case time (current apiResp) of None \<Rightarrow> zero_Time
              | Some s \<Rightarrow> (case time_Parse s of None \<Rightarrow> zero_Time | Some t \<Rightarrow> t)),
      Temperature = (case temperature_2m (current apiResp) of None \<Rightarrow> Fin 0 | Some v \<Rightarrow> v),
      RelativeHumidity = (case relative_humidity_2m (current apiResp) of None \<Rightarrow> Fin 0 | Some v \<Rightarrow> v),
      ApparentTemperature = (case apparent_temperature (current apiResp) of None \<Rightarrow> Fin 0 | Some v \<Rightarrow> v),
      IsDay = (case is_day (current apiResp) of None \<Rightarrow> False | Some v \<Rightarrow> v = 1),
      Precipitation = (case precipitation (current apiResp) of None \<Rightarrow> Fin 0 | Some v \<Rightarrow> v),
      Rain = (case rain (current apiResp) of None \<Rightarrow> Fin 0 | Some v \<Rightarrow> v),
      Showers = (case showers (current apiResp) of None \<Rightarrow> Fin 0 | Some v \<Rightarrow> v),
      Snowfall = (case snowfall (current apiResp) of None \<Rightarrow> Fin 0 | Some v \<Rightarrow> v),
      WeatherCode = (case weather_code (current apiResp) of None \<Rightarrow> 0 | Some v \<Rightarrow> v),
      CloudCover = (case cloud_cover (current apiResp) of None \<Rightarrow> Fin 0 | Some v \<Rightarrow> v),
      PressureMSL = (case pressure_msl (current apiResp) of None \<Rightarrow> Fin 0 | Some v \<Rightarrow> v),
      SurfacePressure = (case surface_pressure (current apiResp) of None \<Rightarrow> Fin 0 | Some v \<Rightarrow> v),
      WindSpeed = (case wind_speed_10m (current apiResp) of None \<Rightarrow> Fin 0 | Some v \<Rightarrow> v),
      WindDirection = (case wind_direction_10m (current apiResp) of None \<Rightarrow> Fin 0 | Some v \<Rightarrow> v),
      WindGusts = (case wind_gusts_10m (current apiResp) of None \<Rightarrow> Fin 0 | Some v \<Rightarrow> v)\<rparr>
   \<and> convertToCurrentWeather \<lparr>latitude = la, longitude = lo, current = sparse_current s temp\<rparr> =
     \<lparr>Latitude = la, Longitude = lo,
      Time = (case time_Parse s of None \<Rightarrow> zero_Time | Some t \<Rightarrow> t),
      Temperature = temp, RelativeHumidity = Fin 0, ApparentTemperature = Fin 0,
      IsDay = False, Precipitation = Fin 0, Rain = Fin 0, Showers = Fin 0, Snowfall = Fin 0,
      WeatherCode = 0, CloudCover = Fin 0, PressureMSL = Fin 0, SurfacePressure = Fin 0,
      WindSpeed = Fin 0, WindDirection = Fin 0, WindGusts = Fin 0\<rparr>"
proof
  show "convertToCurrentWeather apiResp =
     \<lparr>Latitude = latitude apiResp,
      Longitude = longitude apiResp,
      Time = (case time (current apiResp) of None \<Rightarrow> zero_Time
              | Some s \<Rightarrow> (case time_Parse s of None \<Rightarrow> zero_Time | Some t \<Rightarrow> t)),
      Temperature = (case temperature_2m (current apiResp) of None \<Rightarrow> Fin 0 | Some v \<Rightarrow> v),
      RelativeHumidity = (case relative_humidity_2m (current apiResp) of None \<Rightarrow> Fin 0 | Some v \<Rightarrow> v),
      ApparentTemperature = (case apparent_temperature (current apiResp) of None \<Rightarrow> Fin 0 | Some v \<Rightarrow> v),
      IsDay = (case is_day (current apiResp) of None \<Rightarrow> False | Some v \<Rightarrow> v = 1),
      Precipitation = (case precipitation (current apiResp) of None \<Rightarrow> Fin 0 | Some v \<Rightarrow> v),
      Rain = (case rain (current apiResp) of None \<Rightarrow> Fin 0 | Some v \<Rightarrow> v),
      Showers = (case showers (current apiResp) of None \<Rightarrow> Fin 0 | Some v \<Rightarrow> v),
      Snowfall = (case snowfall (current apiResp) of None \<Rightarrow> Fin 0 | Some v \<Rightarrow> v),
      WeatherCode = (case weather_code (current apiResp) of None \<Rightarrow> 0 | Some v \<Rightarrow> v),
      CloudCover = (case cloud_cover (current apiResp) of None \<Rightarrow> Fin 0 | Some v \<Rightarrow> v),
      PressureMSL = (case pressure_msl (current apiResp) of None \<Rightarrow> Fin 0 | Some v \<Rightarrow> v),
      SurfacePressure = (case surface_pressure (current apiResp) of None \<Rightarrow> Fin 0 | Some v \<Rightarrow> v),
      WindSpeed = (case wind_speed_10m (current apiResp) of None \<Rightarrow> Fin 0 | Some v \<Rightarrow> v),
      WindDirection = (case wind_direction_10m (current apiResp) of None \<Rightarrow> Fin 0 | Some v \<Rightarrow> v),
      WindGusts = (case wind_gusts_10m (current apiResp) of None \<Rightarrow> Fin 0 | Some v \<Rightarrow> v)\<rparr>"
    by (rule CurrentWeather.equality) (simp_all add: conv_fields)
  show "convertToCurrentWeather \<lparr>latitude = la, longitude = lo, current = sparse_current s temp\<rparr> =
     \<lparr>Latitude = la, Longitude = lo,
      Time = (case time_Parse s of None \<Rightarrow> zero_Time | Some t \<Rightarrow> t),
      Temperature = temp, RelativeHumidity = Fin 0, ApparentTemperature = Fin 0,
      IsDay = False, Precipitation = Fin 0, Rain = Fin 0, Showers = Fin 0, Snowfall = Fin 0,
      WeatherCode = 0, CloudCover = Fin 0, PressureMSL = Fin 0, SurfacePressure = Fin 0,
      WindSpeed = Fin 0, WindDirection = Fin 0, WindGusts = Fin 0\<rparr>"
    by (rule CurrentWeather.equality) (simp_all add: conv_fields sparse_current_def)
qed

theorem normalize_zero_defaults_witness:
  "convertToCurrentWeather
     \<lparr>latitude = Fin 52.52, longitude = Fin 13.41,
      current = sparse_current ''2025-12-29T10:00'' (Fin 15.3)\<rparr> =
     \<lparr>Latitude = Fin 52.52, Longitude = Fin 13.41,
      Time = \<lparr>year = 2025, month = 12, day = 29, hour = 10, minute = 0\<rparr>,
      Temperature = Fin 15.3, RelativeHumidity = Fin 0, ApparentTemperature = Fin 0,
      IsDay = False, Precipitation = Fin 0, Rain = Fin 0, Showers = Fin 0, Snowfall = Fin 0,
      WeatherCode = 0, CloudCover = Fin 0, PressureMSL = Fin 0, SurfacePressure = Fin 0,
      WindSpeed = Fin 0, WindDirection = Fin 0, WindGusts = Fin 0\<rparr>
   \<and> Time (convertToCurrentWeather
        \<lparr>latitude = Fin 52.52, longitude = Fin 13.41,
         current = sparse_current ''yesterday'' (Fin 15.3)\<rparr>) = zero_Time"
proof -
  note full = normalize_zero_defaults
    [of "sample_response (Fin 0) (Fin 0)" "Fin 52.52" "Fin 13.41" "''2025-12-29T10:00''" "Fin 15.3",
     THEN conjunct2]
  note bad = normalize_zero_defaults
    [of "sample_response (Fin 0) (Fin 0)" "Fin 52.52" "Fin 13.41" "''yesterday''" "Fin 15.3",
     THEN conjunct2]
  have unparsed: "time_Parse ''yesterday'' = None"
    by (simp add: time_Parse_def digit_val_def Let_def)
  show ?thesis
    using full bad by (simp add: time_Parse_sample unparsed)
qed

text \<open>
  C5. The wire response with all fields present and the sample values (temperature 15.3,
  humidity 65.0, wind speed 12.5, wind direction 270.0, weather code 3, is_day 1,
  precipitation 0.5, rain 0.3, showers 0.2, snowfall 0.0, cloud cover 75.0, sea-level
  pressure 1013.25, surface pressure 1010.0, wind gusts 18.0, apparent temperature 14.1,
  time "2025-12-29T10:00") normalizes to the snapshot with exactly these values, the flag
  true, and the time parsed by the zoneless layout as 2025-12-29 10:00 UTC; the
  coordinates are whatever the response carries.
\<close>

theorem normalize_sample_round_trip:
  "convertToCurrentWeather (sample_response la lo) =
     \<lparr>Latitude = la, Longitude = lo,
      Time = \<lparr>year = 2025, month = 12, day = 29, hour = 10, minute = 0\<rparr>,
      Temperature = Fin 15.3, RelativeHumidity = Fin 65, ApparentTemperature = Fin 14.1,
      IsDay = True, Precipitation = Fin 0.5, Rain = Fin 0.3, Showers = Fin 0.2,
      Snowfall = Fin 0, WeatherCode = 3, CloudCover = Fin 75, PressureMSL = Fin 1013.25,
      SurfacePressure = Fin 1010, WindSpeed = Fin 12.5, WindDirection = Fin 270,
      WindGusts = Fin 18\<rparr>"
  by (rule CurrentWeather.equality)
     (simp_all add: conv_fields sample_response_def sample_current_def time_Parse_sample)

theorem normalize_sample_round_trip_witness:
  "Temperature (convertToCurrentWeather (sample_response (Fin 52.52) (Fin 13.41))) = Fin 15.3
   \<and> Time (convertToCurrentWeather (sample_response (Fin 52.52) (Fin 13.41))) =
       \<lparr>year = 2025, month = 12, day = 29, hour = 10, minute = 0\<rparr>
   \<and> Latitude (convertToCurrentWeather (sample_response (Fin 52.52) (Fin 13.41))) = Fin 52.52"
  using normalize_sample_round_trip [of "Fin 52.52" "Fin 13.41"] by simp

section \<open>Properties of the Gateway\<close>

subsection \<open>Auxiliary facts\<close>

lemma Sprintf_d_maxConcurrent: "Sprintf_d (int maxConcurrent) = ''10''"
  by (simp add: maxConcurrent_def Sprintf_d_def Itoa.simps digit_char_def)

lemma recv_send: "recv (send ch) = ch"
  by (simp add: recv_def send_def)

lemma acquire_cases:
  "acquire w c ctx = (Acquired, c\<lparr>semaphore := send (semaphore c)\<rparr>)
   \<or> (\<exists>e. acquire w c ctx = (Refused e, c))"
  by (auto simp: acquire_def split: option.split bool.split)

lemma acquire_Acquired:
  "acquire w c ctx = (Acquired, c') \<Longrightarrow>
     c' = c\<lparr>semaphore := send (semaphore c)\<rparr> \<and> send_ready (semaphore c)"
  by (auto simp: acquire_def split: option.splits bool.splits if_splits)

lemma acquire_Refused:
  "acquire w c ctx = (Refused e, c') \<Longrightarrow>
     c' = c \<and> (Err ctx = Some e
        \<or> (Err ctx = None \<and> \<not> send_ready (semaphore c)
           \<and> e = Error ErrorTypeValidation ''concurrent request limit exceeded (10)'' None))"
  by (auto simp: acquire_def Sprintf_d_maxConcurrent split: option.splits bool.splits if_splits)

lemma release_acquired: "release (c\<lparr>semaphore := send (semaphore c)\<rparr>) = c"
  by (simp add: release_def recv_send)

lemma NewClient_semaphore: "semaphore (NewClient opts) = make_chan maxConcurrent"
proof -
  have one: "semaphore (applyOption opt c) = semaphore c" for opt c
    by (cases opt) simp_all
  have "semaphore (fold applyOption opts c) = semaphore c" for c
    by (induction opts arbitrary: c) (simp_all add: one)
  then show ?thesis by (simp add: NewClient_def)
qed

lemma buildRequestURL_semaphore:
  "buildRequestURL w (c\<lparr>semaphore := s\<rparr>) lat lon = buildRequestURL w c lat lon"
  by (simp add: buildRequestURL_def)

lemma fetch_semaphore: "fetch w (c\<lparr>semaphore := s\<rparr>) ctx lat lon = fetch w c ctx lat lon"
  by (simp add: fetch_def buildRequestURL_semaphore cong: sum.case_cong)

lemma fetch_error_classified:
  "fst (fetch w c ctx lat lon) = Inl e \<Longrightarrow> \<exists>t m cause. e = Error t m cause"
  by (auto simp: fetch_def split: sum.splits if_splits)

lemma fetch_success:
  "fst (fetch w c ctx lat lon) = Inr cw \<Longrightarrow>
     \<exists>body apiResp. Decode w body = Inr apiResp \<and> cw = convertToCurrentWeather apiResp"
  by (auto simp: fetch_def split: sum.splits if_splits)

lemma validateCoordinates_Some:
  "validateCoordinates w lat lon = Some e \<Longrightarrow> \<exists>m. e = Error ErrorTypeValidation m None"
  by (auto simp: validateCoordinates_def split: if_splits)

lemma validateCoordinates_None:
  "(validateCoordinates w lat lon = None) = (\<not> latitude_outside lat \<and> \<not> longitude_outside lon)"
  by (simp add: validateCoordinates_def latitude_outside_def longitude_outside_def f64_greater_def)

text \<open>A call that holds a slot, as a whole.\<close>

lemma GetCurrentWeather_admitted:
  assumes "validateCoordinates w lat lon = None" and "acquire w c ctx = (Acquired, c')"
  shows "GetCurrentWeather w c ctx lat lon =
           (fst (fetch w c ctx lat lon), c, snd (fetch w c ctx lat lon))"
proof -
  from assms(2) have c': "c' = c\<lparr>semaphore := send (semaphore c)\<rparr>"
    by (simp add: acquire_Acquired)
  show ?thesis
    using assms by (simp add: GetCurrentWeather_def c' fetch_semaphore release_acquired split: prod.split)
qed

lemma GetCurrentWeather_client: "fst (snd (GetCurrentWeather w c ctx lat lon)) = c"
proof (cases "validateCoordinates w lat lon")
  case None
  from acquire_cases[of w c ctx] show ?thesis
  proof
    assume "acquire w c ctx = (Acquired, c\<lparr>semaphore := send (semaphore c)\<rparr>)"
    with None show ?thesis by (simp add: GetCurrentWeather_admitted)
  next
    assume "\<exists>e. acquire w c ctx = (Refused e, c)"
    with None show ?thesis by (auto simp: GetCurrentWeather_def)
  qed
next
  case (Some e)
  then show ?thesis by (simp add: GetCurrentWeather_def)
qed

text \<open>The slots held are the calls in flight, and never more than the capacity.\<close>

lemma step_invariant:
  assumes "step st st'"
    and "chan_len (semaphore (fst st)) = length (snd st)"
    and "chan_cap (semaphore (fst st)) = maxConcurrent"
    and "length (snd st) \<le> maxConcurrent"
  shows "chan_len (semaphore (fst st')) = length (snd st')
     \<and> chan_cap (semaphore (fst st')) = maxConcurrent
     \<and> length (snd st') \<le> maxConcurrent"
  using assms
proof (induction rule: step.induct)
  case (enter w lat lon c ctx c' calls)
  from enter.hyps(2) have "c' = c\<lparr>semaphore := send (semaphore c)\<rparr>" "send_ready (semaphore c)"
    by (simp_all add: acquire_Acquired)
  with enter.prems show ?case by (simp add: send_def send_ready_def)
next
  case (refuse w lat lon e c ctx c' calls)
  then show ?case by simp
next
  case (leave k calls c)
  then have "length calls > 0" by (cases calls) auto
  with leave show ?case by (simp add: release_def recv_def length_remove1)
qed

lemma reachable_invariant:
  "reachable opts st \<Longrightarrow>
     chan_len (semaphore (fst st)) = length (snd st)
     \<and> chan_cap (semaphore (fst st)) = maxConcurrent
     \<and> length (snd st) \<le> maxConcurrent"
  unfolding reachable_def
proof (induction rule: rtranclp_induct)
  case base
  show ?case by (simp add: NewClient_semaphore make_chan_def)
next
  case (step y z)
  then show ?case using step_invariant[of y z] by blast
qed

subsection \<open>The mock server, evaluated\<close>

lemma mock_acquire:
  "acquire (mock_world p a d) (NewClient []) (Context None) =
     (Acquired, (NewClient [])\<lparr>semaphore := send (semaphore (NewClient []))\<rparr>)"
  by (simp add: acquire_def NewClient_def make_chan_def send_ready_def maxConcurrent_def)

lemma mock_buildRequestURL:
  "buildRequestURL (mock_world p a d) (NewClient []) lat lon =
     Inr \<lparr>Location = ''https://api.open-meteo.com/v1/forecast'',
          RawQuery = [(''latitude'', [mock_FormatFloat lat]),
                      (''longitude'', [mock_FormatFloat lon]),
                      (''current_weather'', [''true'']),
                      (''temperature_unit'', [''celsius'']),
                      (''windspeed_unit'', [''ms'']),
                      (''precipitation_unit'', [''mm''])]\<rparr>"
  by (simp add: buildRequestURL_def mock_world_def NewClient_def defaultBaseURL_def
        Values_Set_def Let_def)

lemma mock_NewRequest:
  "NewRequestWithContext (mock_world p a d) ctx m u = Inr \<lparr>Method = m, Target = u, Ctx = ctx\<rparr>"
  by (simp add: mock_world_def)

lemma mock_Do: "Do (mock_world p a d) h req = a"
  by (simp add: mock_world_def)

lemma mock_Decode: "Decode (mock_world p a d) body = d"
  by (simp add: mock_world_def)

lemma busy_client_full:
  "chan_len (semaphore busy_client) = 10 \<and> chan_cap (semaphore busy_client) = 10
   \<and> \<not> send_ready (semaphore busy_client)"
  by (simp add: busy_client_def maxConcurrent_def send_ready_def)

subsection \<open>Coordinate validation\<close>






lemma fetch_unparsed:
  "url_Parse w (baseURL c @ ''/forecast'') = Inl err \<Longrightarrow>
     fetch w c ctx lat lon =
       (Inl (Error ErrorTypeValidation ''failed to build request URL'' (Some err)), [])"
  by (simp add: fetch_def buildRequestURL_def)

lemma buildRequestURL_parsed:
  "url_Parse w (baseURL c @ ''/forecast'') = Inr u0 \<Longrightarrow>
     \<exists>u. buildRequestURL w c lat lon = Inr u
       \<and> Values_Get (RawQuery u) ''latitude'' = FormatFloat w lat
       \<and> Values_Get (RawQuery u) ''longitude'' = FormatFloat w lon"
  by (simp add: buildRequestURL_def Let_def Values_Set_def Values_Get_def update_conv)

lemma fetch_built_not_validation:
  "buildRequestURL w c lat lon = Inr u \<Longrightarrow>
     fst (fetch w c ctx lat lon) \<noteq> Inl (Error ErrorTypeValidation m cause)"
  by (simp add: fetch_def split: sum.split)

lemma fetch_built_requests:
  "buildRequestURL w c lat lon = Inr u \<Longrightarrow> NewRequestWithContext w ctx ''GET'' u = Inr req \<Longrightarrow>
     snd (fetch w c ctx lat lon) = [req]"
  by (simp add: fetch_def split: sum.split)

lemma mock_url_Parse: "url_Parse (mock_world p a d) s = Inr \<lparr>Location = s, RawQuery = []\<rparr>"
  by (simp add: mock_world_def)

text \<open>
  C9 does not hold as stated: a NaN latitude does not keep the call from returning a
  Validation error. With the longitude 181 the call for (NaN, 181) returns the Validation
  error of the longitude and issues no request.
\<close>

theorem nan_latitude_bad_longitude:
  "GetCurrentWeather (mock_world True (Inl (Foreign ''connection refused'')) (Inl Canceled))
     (NewClient []) (Context None) NaN (Fin 181) =
     (Inl (Error ErrorTypeValidation
             ''invalid longitude: 181.00 (must be between -180 and 180)'' None),
      NewClient [], [])"
  by (simp add: GetCurrentWeather_def validateCoordinates_def f64_greater_def
        mock_world_def mock_Sprintf_2f_def)

text \<open>
  C9, amended. Both range comparisons are false for NaN, so a NaN coordinate passes its own
  range check: with a NaN latitude (or longitude), coordinate validation passes exactly
  when the other coordinate is not below or above its bounds (it may be NaN too), and
  otherwise the call returns the Validation error of that other coordinate and issues no
  request. When validation passes with a NaN coordinate the call goes on to admission. At
  a full pool with a live context it returns the Validation error of the concurrency
  limit. Holding a slot, it returns the Validation error "failed to build request URL" if
  the base URL does not parse; if the base URL parses, it returns no Validation error,
  the URL carries the formatted coordinates (the NaN included), and a request that can be
  created is handed to the HTTP client.
\<close>

theorem nan_coordinate_validation:
  "\<not> f64_less NaN x \<and> \<not> f64_greater NaN x
   \<and> (validateCoordinates w NaN lon = None) = (\<not> longitude_outside lon)
   \<and> (validateCoordinates w lat NaN = None) = (\<not> latitude_outside lat)
   \<and> (longitude_outside lon \<longrightarrow>
        GetCurrentWeather w c ctx NaN lon =
          (Inl (Error ErrorTypeValidation
                 (''invalid longitude: '' @ Sprintf_2f w lon @ '' (must be between -180 and 180)'')
                 None), c, []))
   \<and> (latitude_outside lat \<longrightarrow>
        GetCurrentWeather w c ctx lat NaN =
          (Inl (Error ErrorTypeValidation
                 (''invalid latitude: '' @ Sprintf_2f w lat @ '' (must be between -90 and 90)'')
                 None), c, []))
   \<and> ((lat = NaN \<and> \<not> longitude_outside lon) \<or> (lon = NaN \<and> \<not> latitude_outside lat) \<longrightarrow>
        validateCoordinates w lat lon = None
        \<and> (\<not> send_ready (semaphore c) \<and> Err ctx = None \<longrightarrow>
             GetCurrentWeather w c ctx lat lon =
               (Inl (Error ErrorTypeValidation ''concurrent request limit exceeded (10)'' None),
                c, []))
        \<and> (acquire w c ctx = (Acquired, c') \<and> url_Parse w (baseURL c @ ''/forecast'') = Inl err \<longrightarrow>
             GetCurrentWeather w c ctx lat lon =
               (Inl (Error ErrorTypeValidation ''failed to build request URL'' (Some err)), c, []))
        \<and> (acquire w c ctx = (Acquired, c') \<and> url_Parse w (baseURL c @ ''/forecast'') = Inr u0 \<longrightarrow>
             (\<forall>m cause. fst (GetCurrentWeather w c ctx lat lon)
                           \<noteq> Inl (Error ErrorTypeValidation m cause))
             \<and> (\<exists>u. buildRequestURL w c lat lon = Inr u
                   \<and> Values_Get (RawQuery u) ''latitude'' = FormatFloat w lat
                   \<and> Values_Get (RawQuery u) ''longitude'' = FormatFloat w lon
                   \<and> (\<forall>req. NewRequestWithContext w ctx ''GET'' u = Inr req \<longrightarrow>
                         snd (snd (GetCurrentWeather w c ctx lat lon)) = [req]))))"
proof -
  have cmp: "\<not> f64_less NaN x \<and> \<not> f64_greater NaN x"
    by (cases x) (simp_all add: f64_greater_def)
  have nan_lat: "\<not> latitude_outside NaN" and nan_lon: "\<not> longitude_outside NaN"
    by (simp_all add: latitude_outside_def longitude_outside_def)
  have v_lat: "(validateCoordinates w NaN lon = None) = (\<not> longitude_outside lon)"
    by (simp add: validateCoordinates_None nan_lat)
  have v_lon: "(validateCoordinates w lat NaN = None) = (\<not> latitude_outside lat)"
    by (simp add: validateCoordinates_None nan_lon)
  have bad_lon: "GetCurrentWeather w c ctx NaN lon =
          (Inl (Error ErrorTypeValidation
                 (''invalid longitude: '' @ Sprintf_2f w lon @ '' (must be between -180 and 180)'')
                 None), c, [])" if "longitude_outside lon"
    using that
    by (simp add: GetCurrentWeather_def validateCoordinates_def longitude_outside_def
          f64_greater_def)
  have bad_lat: "GetCurrentWeather w c ctx lat NaN =
          (Inl (Error ErrorTypeValidation
                 (''invalid latitude: '' @ Sprintf_2f w lat @ '' (must be between -90 and 90)'')
                 None), c, [])" if "latitude_outside lat"
    using that
    by (simp add: GetCurrentWeather_def validateCoordinates_def latitude_outside_def
          f64_greater_def)
  have passes: "validateCoordinates w lat lon = None
        \<and> (\<not> send_ready (semaphore c) \<and> Err ctx = None \<longrightarrow>
             GetCurrentWeather w c ctx lat lon =
               (Inl (Error ErrorTypeValidation ''concurrent request limit exceeded (10)'' None),
                c, []))
        \<and> (acquire w c ctx = (Acquired, c') \<and> url_Parse w (baseURL c @ ''/forecast'') = Inl err \<longrightarrow>
             GetCurrentWeather w c ctx lat lon =
               (Inl (Error ErrorTypeValidation ''failed to build request URL'' (Some err)), c, []))
        \<and> (acquire w c ctx = (Acquired, c') \<and> url_Parse w (baseURL c @ ''/forecast'') = Inr u0 \<longrightarrow>
             (\<forall>m cause. fst (GetCurrentWeather w c ctx lat lon)
                           \<noteq> Inl (Error ErrorTypeValidation m cause))
             \<and> (\<exists>u. buildRequestURL w c lat lon = Inr u
                   \<and> Values_Get (RawQuery u) ''latitude'' = FormatFloat w lat
                   \<and> Values_Get (RawQuery u) ''longitude'' = FormatFloat w lon
                   \<and> (\<forall>req. NewRequestWithContext w ctx ''GET'' u = Inr req \<longrightarrow>
                         snd (snd (GetCurrentWeather w c ctx lat lon)) = [req])))"
    if nan: "(lat = NaN \<and> \<not> longitude_outside lon) \<or> (lon = NaN \<and> \<not> latitude_outside lat)"
  proof (intro conjI impI)
    from nan show v: "validateCoordinates w lat lon = None"
      using v_lat v_lon by auto
    {
      assume full: "\<not> send_ready (semaphore c) \<and> Err ctx = None"
      then have "acquire w c ctx =
          (Refused (Error ErrorTypeValidation ''concurrent request limit exceeded (10)'' None), c)"
        by (simp add: acquire_def Sprintf_d_maxConcurrent)
      with v show "GetCurrentWeather w c ctx lat lon =
               (Inl (Error ErrorTypeValidation ''concurrent request limit exceeded (10)'' None),
                c, [])"
        by (simp add: GetCurrentWeather_def)
    }
    {
      assume a: "acquire w c ctx = (Acquired, c') \<and> url_Parse w (baseURL c @ ''/forecast'') = Inl err"
      then have "fetch w c ctx lat lon =
          (Inl (Error ErrorTypeValidation ''failed to build request URL'' (Some err)), [])"
        by (simp add: fetch_unparsed)
      with a v show "GetCurrentWeather w c ctx lat lon =
               (Inl (Error ErrorTypeValidation ''failed to build request URL'' (Some err)), c, [])"
        by (simp add: GetCurrentWeather_admitted)
    }
    {
      assume a: "acquire w c ctx = (Acquired, c') \<and> url_Parse w (baseURL c @ ''/forecast'') = Inr u0"
      then have whole: "GetCurrentWeather w c ctx lat lon =
          (fst (fetch w c ctx lat lon), c, snd (fetch w c ctx lat lon))"
        using v by (simp add: GetCurrentWeather_admitted)
      from a obtain u where u: "buildRequestURL w c lat lon = Inr u"
        and q: "Values_Get (RawQuery u) ''latitude'' = FormatFloat w lat"
          "Values_Get (RawQuery u) ''longitude'' = FormatFloat w lon"
        using buildRequestURL_parsed by blast
      show "\<forall>m cause. fst (GetCurrentWeather w c ctx lat lon)
                           \<noteq> Inl (Error ErrorTypeValidation m cause)"
        using fetch_built_not_validation [OF u] by (simp add: whole)
      show "\<exists>u. buildRequestURL w c lat lon = Inr u
                   \<and> Values_Get (RawQuery u) ''latitude'' = FormatFloat w lat
                   \<and> Values_Get (RawQuery u) ''longitude'' = FormatFloat w lon
                   \<and> (\<forall>req. NewRequestWithContext w ctx ''GET'' u = Inr req \<longrightarrow>
                         snd (snd (GetCurrentWeather w c ctx lat lon)) = [req])"
        using u q fetch_built_requests [OF u] by (auto simp: whole)
    }
  qed
  from cmp v_lat v_lon bad_lon bad_lat passes show ?thesis by blast
qed

theorem nan_coordinate_validation_witness:
  "validateCoordinates (mock_world True (Inl (Foreign ''connection refused'')) (Inl Canceled))
     NaN (Fin 13.41) = None
   \<and> GetCurrentWeather (mock_world True (Inl (Foreign ''connection refused'')) (Inl Canceled))
        (NewClient []) (Context None) NaN (Fin 13.41) =
      (Inl (Error ErrorTypeNetwork ''failed to execute HTTP request''
              (Some (Foreign ''connection refused''))),
       NewClient [],
       [\<lparr>Method = ''GET'',
         Target = \<lparr>Location = ''https://api.open-meteo.com/v1/forecast'',
                   RawQuery = [(''latitude'', [''NaN'']), (''longitude'', [''13.41'']),
                               (''current_weather'', [''true'']),
                               (''temperature_unit'', [''celsius'']),
                               (''windspeed_unit'', [''ms'']),
                               (''precipitation_unit'', [''mm''])]\<rparr>,
         Ctx = Context None\<rparr>])
   \<and> longitude_outside (Fin 181)
   \<and> GetCurrentWeather (mock_world True (Inl (Foreign ''connection refused'')) (Inl Canceled))
        busy_client (Context None) NaN NaN =
      (Inl (Error ErrorTypeValidation ''concurrent request limit exceeded (10)'' None),
       busy_client, [])"
proof -
  let ?w = "mock_world True (Inl (Foreign ''connection refused'')) (Inl Canceled)"
  let ?u = "\<lparr>Location = ''https://api.open-meteo.com/v1/forecast'',
             RawQuery = [(''latitude'', [mock_FormatFloat NaN]),
                         (''longitude'', [mock_FormatFloat (Fin 13.41)]),
                         (''current_weather'', [''true'']),
                         (''temperature_unit'', [''celsius'']),
                         (''windspeed_unit'', [''ms'']),
                         (''precipitation_unit'', [''mm''])]\<rparr>"
  let ?req = "\<lparr>Method = ''GET'', Target = ?u, Ctx = Context None\<rparr>"
  let ?c1 = "(NewClient [])\<lparr>semaphore := send (semaphore (NewClient []))\<rparr>"
  have lon: "\<not> longitude_outside (Fin 13.41)"
    by (simp add: longitude_outside_def)
  have far: "longitude_outside (Fin 181)"
    by (simp add: longitude_outside_def)
  have parsed: "url_Parse ?w (baseURL (NewClient []) @ ''/forecast'') =
      Inr \<lparr>Location = baseURL (NewClient []) @ ''/forecast'', RawQuery = []\<rparr>"
    by (rule mock_url_Parse)
  note inst = nan_coordinate_validation
    [where w = ?w and lat = NaN and lon = "Fin 13.41" and c = "NewClient []"
       and ctx = "Context None" and c' = ?c1
       and ?u0.0 = "\<lparr>Location = baseURL (NewClient []) @ ''/forecast'', RawQuery = []\<rparr>"]
  from inst lon have v: "validateCoordinates ?w NaN (Fin 13.41) = None"
    by blast
  from inst lon parsed mock_acquire [of True "Inl (Foreign ''connection refused'')" "Inl Canceled"]
  obtain u where u: "buildRequestURL ?w (NewClient []) NaN (Fin 13.41) = Inr u"
    and issue: "\<forall>req. NewRequestWithContext ?w (Context None) ''GET'' u = Inr req \<longrightarrow>
        snd (snd (GetCurrentWeather ?w (NewClient []) (Context None) NaN (Fin 13.41))) = [req]"
    by blast
  from u have "u = ?u"
    by (simp add: mock_buildRequestURL)
  with issue have reqs: "snd (snd (GetCurrentWeather ?w (NewClient []) (Context None) NaN (Fin 13.41))) = [?req]"
    by (simp add: mock_NewRequest)
  have res: "fst (GetCurrentWeather ?w (NewClient []) (Context None) NaN (Fin 13.41)) =
      Inl (Error ErrorTypeNetwork ''failed to execute HTTP request''
             (Some (Foreign ''connection refused'')))"
    by (subst GetCurrentWeather_admitted [OF v mock_acquire])
       (simp add: fetch_def mock_buildRequestURL mock_NewRequest mock_Do)
  have run: "GetCurrentWeather ?w (NewClient []) (Context None) NaN (Fin 13.41) =
      (Inl (Error ErrorTypeNetwork ''failed to execute HTTP request''
              (Some (Foreign ''connection refused''))),
       NewClient [], [?req])"
    using res reqs GetCurrentWeather_client [of ?w "NewClient []" "Context None" NaN "Fin 13.41"]
    by (metis prod.collapse)
  have busy: "\<not> send_ready (semaphore busy_client) \<and> Err (Context None) = None"
    by (simp add: busy_client_full)
  have nan2: "\<not> longitude_outside NaN"
    by (simp add: longitude_outside_def)
  from nan_coordinate_validation
    [where w = ?w and lat = NaN and lon = NaN and c = busy_client and ctx = "Context None"]
    nan2 busy
  have full: "GetCurrentWeather ?w busy_client (Context None) NaN NaN =
      (Inl (Error ErrorTypeValidation ''concurrent request limit exceeded (10)'' None),
       busy_client, [])"
    by blast
  from v run far full show ?thesis by (simp add: mock_FormatFloat_def)
qed

subsection \<open>Requests and responses\<close>

text \<open>
  C8. When the HTTP client answers with a status other than 200, whatever the body, the
  call returns no snapshot but an API (Upstream) error without a cause, whose message is
  "API returned status ", the status code in decimal, ": " and the text read from the
  body.
\<close>

theorem non_200_is_api_error:
  assumes "validateCoordinates w lat lon = None"
    and "acquire w c ctx = (Acquired, c')"
    and "buildRequestURL w c lat lon = Inr u"
    and "NewRequestWithContext w ctx ''GET'' u = Inr req"
    and "Do w (httpClient c) req = Inr resp"
    and "StatusCode resp \<noteq> 200"
  shows "GetCurrentWeather w c ctx lat lon =
           (Inl (Error ErrorTypeAPI
                  (''API returned status '' @ Sprintf_d (StatusCode resp) @ '': '' @ Body resp)
                  None),
            c, [req])"
proof -
  from assms(3-6) have "fetch w c ctx lat lon =
      (Inl (Error ErrorTypeAPI
             (''API returned status '' @ Sprintf_d (StatusCode resp) @ '': '' @ Body resp) None),
       [req])"
    by (simp add: fetch_def)
  with assms(1,2) show ?thesis
    by (simp add: GetCurrentWeather_admitted)
qed

theorem non_200_is_api_error_witness:
  "GetCurrentWeather
     (mock_world True (Inr \<lparr>StatusCode = 500, Body = ''Error: Internal Server Error''\<rparr>)
        (Inl (Foreign ''unexpected end of JSON input'')))
     (NewClient []) (Context None) (Fin 52.52) (Fin 13.41) =
   (Inl (Error ErrorTypeAPI ''API returned status 500: Error: Internal Server Error'' None),
    NewClient [],
    [\<lparr>Method = ''GET'',
      Target = \<lparr>Location = ''https://api.open-meteo.com/v1/forecast'',
                RawQuery = [(''latitude'', [''52.52'']), (''longitude'', [''13.41'']),
                            (''current_weather'', [''true'']),
                            (''temperature_unit'', [''celsius'']),
                            (''windspeed_unit'', [''ms'']),
                            (''precipitation_unit'', [''mm''])]\<rparr>,
      Ctx = Context None\<rparr>])"
proof -
  let ?w = "mock_world True (Inr \<lparr>StatusCode = 500, Body = ''Error: Internal Server Error''\<rparr>)
              (Inl (Foreign ''unexpected end of JSON input''))"
  have v: "validateCoordinates ?w (Fin 52.52) (Fin 13.41) = None"
    by (simp add: validateCoordinates_def f64_greater_def)
  have s: "StatusCode \<lparr>StatusCode = 500, Body = ''Error: Internal Server Error''\<rparr> \<noteq> 200"
    by simp
  have d: "Sprintf_d 500 = ''500''"
    by (simp add: Sprintf_d_def Itoa.simps digit_char_def)
  show ?thesis
    using non_200_is_api_error [OF v mock_acquire mock_buildRequestURL mock_NewRequest mock_Do s]
    by (simp add: d mock_FormatFloat_def)
qed

text \<open>
  C10. The coordinates of the snapshot are those of the decoded response body, not the
  arguments of the call: normalization copies them from the wire response, every snapshot
  the call returns is the normalization of a decoded body, and the mock server that echoes
  (0, 0) makes a call for (90, -180) return a snapshot at (0, 0).
\<close>

theorem coordinates_from_body:
  "Latitude (convertToCurrentWeather apiResp) = latitude apiResp
   \<and> Longitude (convertToCurrentWeather apiResp) = longitude apiResp
   \<and> (fst (GetCurrentWeather w c ctx lat lon) = Inr cw \<longrightarrow>
        (\<exists>body r. Decode w body = Inr r \<and> Latitude cw = latitude r \<and> Longitude cw = longitude r))
   \<and> (\<exists>cw0. fst (GetCurrentWeather
                    (mock_world True (Inr \<lparr>StatusCode = 200, Body = ''{}''\<rparr>)
                       (Inr (sample_response (Fin 0) (Fin 0))))
                    (NewClient []) (Context None) (Fin 90) (Fin (- 180))) = Inr cw0
          \<and> Latitude cw0 = Fin 0 \<and> Longitude cw0 = Fin 0
          \<and> Latitude cw0 \<noteq> Fin 90 \<and> Longitude cw0 \<noteq> Fin (- 180))"
proof (intro conjI impI)
  show "Latitude (convertToCurrentWeather apiResp) = latitude apiResp"
    by (rule conv_Latitude)
  show "Longitude (convertToCurrentWeather apiResp) = longitude apiResp"
    by (rule conv_Longitude)
next
  assume ok: "fst (GetCurrentWeather w c ctx lat lon) = Inr cw"
  have "fst (fetch w c ctx lat lon) = Inr cw"
  proof (cases "validateCoordinates w lat lon")
    case None
    from acquire_cases[of w c ctx] show ?thesis
    proof
      assume "acquire w c ctx = (Acquired, c\<lparr>semaphore := send (semaphore c)\<rparr>)"
      with None ok show ?thesis by (simp add: GetCurrentWeather_admitted)
    next
      assume "\<exists>e. acquire w c ctx = (Refused e, c)"
      with None ok show ?thesis by (auto simp: GetCurrentWeather_def)
    qed
  next
    case (Some e)
    with ok show ?thesis by (simp add: GetCurrentWeather_def)
  qed
  then obtain body r where "Decode w body = Inr r" "cw = convertToCurrentWeather r"
    using fetch_success by blast
  then show "\<exists>body r. Decode w body = Inr r \<and> Latitude cw = latitude r \<and> Longitude cw = longitude r"
    by (auto simp: conv_Latitude conv_Longitude)
next
  let ?w = "mock_world True (Inr \<lparr>StatusCode = 200, Body = ''{}''\<rparr>)
              (Inr (sample_response (Fin 0) (Fin 0)))"
  have v: "validateCoordinates ?w (Fin 90) (Fin (- 180)) = None"
    by (simp add: validateCoordinates_def f64_greater_def)
  have "fetch ?w (NewClient []) (Context None) (Fin 90) (Fin (- 180)) =
      (Inr (convertToCurrentWeather (sample_response (Fin 0) (Fin 0))),
       [\<lparr>Method = ''GET'',
         Target = \<lparr>Location = ''https://api.open-meteo.com/v1/forecast'',
                   RawQuery = [(''latitude'', [mock_FormatFloat (Fin 90)]),
                               (''longitude'', [mock_FormatFloat (Fin (- 180))]),
                               (''current_weather'', [''true'']),
                               (''temperature_unit'', [''celsius'']),
                               (''windspeed_unit'', [''ms'']),
                               (''precipitation_unit'', [''mm''])]\<rparr>,
         Ctx = Context None\<rparr>])"
    by (simp add: fetch_def mock_buildRequestURL mock_NewRequest mock_Do mock_Decode)
  then have "fst (GetCurrentWeather ?w (NewClient []) (Context None) (Fin 90) (Fin (- 180))) =
      Inr (convertToCurrentWeather (sample_response (Fin 0) (Fin 0)))"
    by (simp add: GetCurrentWeather_admitted [OF v mock_acquire])
  then show "\<exists>cw0. fst (GetCurrentWeather ?w (NewClient []) (Context None) (Fin 90) (Fin (- 180))) = Inr cw0
          \<and> Latitude cw0 = Fin 0 \<and> Longitude cw0 = Fin 0
          \<and> Latitude cw0 \<noteq> Fin 90 \<and> Longitude cw0 \<noteq> Fin (- 180)"
    by (simp add: conv_Latitude conv_Longitude sample_response_def)
qed

theorem coordinates_from_body_witness:
  "fst (GetCurrentWeather
          (mock_world True (Inr \<lparr>StatusCode = 200, Body = ''{}''\<rparr>)
             (Inr (sample_response (Fin 0) (Fin 0))))
          (NewClient []) (Context None) (Fin 90) (Fin (- 180)))
     = Inr (convertToCurrentWeather (sample_response (Fin 0) (Fin 0)))
   \<and> (\<exists>body r. Decode (mock_world True (Inr \<lparr>StatusCode = 200, Body = ''{}''\<rparr>)
                         (Inr (sample_response (Fin 0) (Fin 0)))) body = Inr r
         \<and> Latitude (convertToCurrentWeather (sample_response (Fin 0) (Fin 0))) = latitude r
         \<and> Longitude (convertToCurrentWeather (sample_response (Fin 0) (Fin 0))) = longitude r)"
proof -
  let ?w = "mock_world True (Inr \<lparr>StatusCode = 200, Body = ''{}''\<rparr>)
              (Inr (sample_response (Fin 0) (Fin 0)))"
  have v: "validateCoordinates ?w (Fin 90) (Fin (- 180)) = None"
    by (simp add: validateCoordinates_def f64_greater_def)
  have run: "fst (GetCurrentWeather ?w (NewClient []) (Context None) (Fin 90) (Fin (- 180))) =
      Inr (convertToCurrentWeather (sample_response (Fin 0) (Fin 0)))"
    by (simp add: GetCurrentWeather_admitted [OF v mock_acquire] fetch_def
          mock_buildRequestURL mock_NewRequest mock_Do mock_Decode)
  from coordinates_from_body
    [of "sample_response (Fin 0) (Fin 0)" ?w "NewClient []" "Context None" "Fin 90" "Fin (- 180)"
        "convertToCurrentWeather (sample_response (Fin 0) (Fin 0))"]
  have "fst (GetCurrentWeather ?w (NewClient []) (Context None) (Fin 90) (Fin (- 180))) =
          Inr (convertToCurrentWeather (sample_response (Fin 0) (Fin 0))) \<longrightarrow>
        (\<exists>body r. Decode ?w body = Inr r
           \<and> Latitude (convertToCurrentWeather (sample_response (Fin 0) (Fin 0))) = latitude r
           \<and> Longitude (convertToCurrentWeather (sample_response (Fin 0) (Fin 0))) = longitude r)"
    by blast
  with run show ?thesis by blast
qed

subsection \<open>Admission\<close>

text \<open>
  C2. The admission pool has capacity 10, whatever the options. In every state that
  overlapping calls can reach, the slots held are the calls in flight and at most 10, so
  that the pool is empty again once no call is in flight. A call made while all 10 slots
  are held and the context is live returns at once a Validation error (for valid
  coordinates the one saying "concurrent request limit exceeded (10)"), hands no request
  to the HTTP client and leaves the pool as it is. A call that acquires a slot gives it
  back, whatever it returns: the client after a call is the client before it.
\<close>

theorem admission_pool:
  "chan_cap (semaphore (NewClient opts)) = 10 \<and> chan_len (semaphore (NewClient opts)) = 0
   \<and> (reachable opts (c, calls) \<longrightarrow>
        chan_cap (semaphore c) = 10 \<and> chan_len (semaphore c) = length calls
        \<and> chan_len (semaphore c) \<le> 10)
   \<and> (reachable opts (c, []) \<longrightarrow> chan_len (semaphore c) = 0)
   \<and> (chan_len (semaphore c0) = chan_cap (semaphore c0) \<and> Err ctx = None \<longrightarrow>
        (\<exists>msg. GetCurrentWeather w c0 ctx lat lon =
                  (Inl (Error ErrorTypeValidation msg None), c0, [])))
   \<and> (chan_len (semaphore c0) = chan_cap (semaphore c0) \<and> Err ctx = None
        \<and> validateCoordinates w lat lon = None \<longrightarrow>
        GetCurrentWeather w c0 ctx lat lon =
          (Inl (Error ErrorTypeValidation ''concurrent request limit exceeded (10)'' None), c0, []))
   \<and> (acquire w c0 ctx = (Acquired, c1) \<longrightarrow> release c1 = c0)
   \<and> fst (snd (GetCurrentWeather w c0 ctx lat lon)) = c0"
proof (intro conjI impI)
  show "chan_cap (semaphore (NewClient opts)) = 10" "chan_len (semaphore (NewClient opts)) = 0"
    by (simp_all add: NewClient_semaphore make_chan_def maxConcurrent_def)
next
  assume r: "reachable opts (c, calls)"
  from reachable_invariant[OF r]
  show "chan_cap (semaphore c) = 10" "chan_len (semaphore c) = length calls"
    "chan_len (semaphore c) \<le> 10"
    by (simp_all add: maxConcurrent_def)
next
  assume r: "reachable opts (c, [])"
  from reachable_invariant[OF r] show "chan_len (semaphore c) = 0" by simp
next
  assume full: "chan_len (semaphore c0) = chan_cap (semaphore c0) \<and> Err ctx = None
        \<and> validateCoordinates w lat lon = None"
  then have "acquire w c0 ctx =
      (Refused (Error ErrorTypeValidation ''concurrent request limit exceeded (10)'' None), c0)"
    by (simp add: acquire_def send_ready_def Sprintf_d_maxConcurrent)
  with full show "GetCurrentWeather w c0 ctx lat lon =
          (Inl (Error ErrorTypeValidation ''concurrent request limit exceeded (10)'' None), c0, [])"
    by (simp add: GetCurrentWeather_def)
next
  assume full: "chan_len (semaphore c0) = chan_cap (semaphore c0) \<and> Err ctx = None"
  then have a: "acquire w c0 ctx =
      (Refused (Error ErrorTypeValidation ''concurrent request limit exceeded (10)'' None), c0)"
    by (simp add: acquire_def send_ready_def Sprintf_d_maxConcurrent)
  show "\<exists>msg. GetCurrentWeather w c0 ctx lat lon = (Inl (Error ErrorTypeValidation msg None), c0, [])"
  proof (cases "validateCoordinates w lat lon")
    case None
    with a show ?thesis by (simp add: GetCurrentWeather_def)
  next
    case (Some e)
    then obtain m where "e = Error ErrorTypeValidation m None"
      using validateCoordinates_Some by blast
    with Some show ?thesis by (simp add: GetCurrentWeather_def)
  qed
next
  assume "acquire w c0 ctx = (Acquired, c1)"
  then have "c1 = c0\<lparr>semaphore := send (semaphore c0)\<rparr>"
    using acquire_Acquired by blast
  then show "release c1 = c0"
    by (simp add: release_acquired)
next
  show "fst (snd (GetCurrentWeather w c0 ctx lat lon)) = c0"
    by (rule GetCurrentWeather_client)
qed

theorem admission_pool_witness:
  "reachable [] (NewClient [], [])
   \<and> reachable []
        ((NewClient [])\<lparr>semaphore := send (semaphore (NewClient []))\<rparr>,
         [(mock_world True (Inl Canceled) (Inl Canceled), Context None, Fin 0, Fin 0)])
   \<and> chan_len (semaphore ((NewClient [])\<lparr>semaphore := send (semaphore (NewClient []))\<rparr>)) = 1
   \<and> chan_len (semaphore busy_client) = chan_cap (semaphore busy_client)
   \<and> GetCurrentWeather (mock_world True (Inl Canceled) (Inl Canceled)) busy_client
        (Context None) (Fin 0) (Fin 0) =
       (Inl (Error ErrorTypeValidation ''concurrent request limit exceeded (10)'' None),
        busy_client, [])
   \<and> release ((NewClient [])\<lparr>semaphore := send (semaphore (NewClient []))\<rparr>) = NewClient []"
proof -
  let ?w = "mock_world True (Inl Canceled) (Inl Canceled)"
  let ?c1 = "(NewClient [])\<lparr>semaphore := send (semaphore (NewClient []))\<rparr>"
  have v: "validateCoordinates ?w (Fin 0) (Fin 0) = None"
    by (simp add: validateCoordinates_def f64_greater_def)
  have r0: "reachable [] (NewClient [], [])"
    by (simp add: reachable_def)
  have "step (NewClient [], []) (?c1, [(?w, Context None, Fin 0, Fin 0)])"
    by (rule step.enter [OF v mock_acquire])
  then have r1: "reachable [] (?c1, [(?w, Context None, Fin 0, Fin 0)])"
    by (simp add: reachable_def)
  have full: "chan_len (semaphore busy_client) = chan_cap (semaphore busy_client) \<and> Err (Context None) = None"
    by (simp add: busy_client_full)
  note inst = admission_pool
    [of "[]" ?c1 "[(?w, Context None, Fin 0, Fin 0)]" busy_client "Context None" ?w "Fin 0" "Fin 0" ?c1]
  from inst r1 have "chan_len (semaphore ?c1) = 1" by simp
  moreover from inst full v
  have "GetCurrentWeather ?w busy_client (Context None) (Fin 0) (Fin 0) =
       (Inl (Error ErrorTypeValidation ''concurrent request limit exceeded (10)'' None),
        busy_client, [])"
    by blast
  moreover from admission_pool
    [of "[]" ?c1 "[(?w, Context None, Fin 0, Fin 0)]" "NewClient []" "Context None" ?w "Fin 0" "Fin 0" ?c1]
    mock_acquire [of True "Inl Canceled" "Inl Canceled"]
  have "release ?c1 = NewClient []"
    by blast
  ultimately show ?thesis using r0 r1 full by blast
qed

subsection \<open>The kinds of failure\<close>

text \<open>
  C1 fails on the code. With no slot free and the context cancelled, the \<open>ctx.Done()\<close>
  case of the \<open>select\<close> returns \<open>context.Canceled\<close> as it is: the error is none of
  the three kinds, since \<open>errors.As\<close> finds no \<open>*Error\<close> in it. With all slots free
  the same happens whenever the \<open>select\<close> picks \<open>ctx.Done()\<close> rather than the send.
  All other failure paths wrap their error in an \<open>*Error\<close>.
\<close>

theorem cancelled_admission_unclassified:
  "GetCurrentWeather (mock_world True (Inl (Foreign ''connection refused'')) (Inl Canceled))
     busy_client (Context (Some Canceled)) (Fin 0) (Fin 0) = (Inl Canceled, busy_client, [])
   \<and> GetCurrentWeather (mock_world False (Inl (Foreign ''connection refused'')) (Inl Canceled))
       (NewClient []) (Context (Some Canceled)) (Fin 0) (Fin 0) = (Inl Canceled, NewClient [], [])
   \<and> errors_As Canceled = None
   \<and> errors_Is Canceled Canceled"
proof -
  have full: "acquire (mock_world True (Inl (Foreign ''connection refused'')) (Inl Canceled))
          busy_client (Context (Some Canceled)) = (Refused Canceled, busy_client)"
    by (simp add: acquire_def busy_client_full)
  have free: "acquire (mock_world False (Inl (Foreign ''connection refused'')) (Inl Canceled))
          (NewClient []) (Context (Some Canceled)) = (Refused Canceled, NewClient [])"
    by (simp add: acquire_def NewClient_def make_chan_def send_ready_def maxConcurrent_def
          mock_world_def)
  from full free show ?thesis
    by (simp add: GetCurrentWeather_def validateCoordinates_def f64_greater_def)
qed

subsection \<open>The request URL\<close>

text \<open>
  C4 fails on the code. For the coordinates of \<open>TestGetCurrentWeather_Success\<close> and the
  default client, \<open>buildRequestURL\<close> gives a query with \<open>current_weather=true\<close> and
  \<open>windspeed_unit=ms\<close>: there is no parameter \<open>current\<close>, so none of the 15 fields is
  named, while that test requires \<open>current\<close> to be the comma-joined list of them.
\<close>

theorem request_url_lacks_current:
  "buildRequestURL (mock_world True (Inl (Foreign ''connection refused'')) (Inl Canceled))
     (NewClient []) (Fin 52.52) (Fin 13.41) =
     Inr \<lparr>Location = ''https://api.open-meteo.com/v1/forecast'',
          RawQuery = [(''latitude'', [''52.52'']), (''longitude'', [''13.41'']),
                      (''current_weather'', [''true'']),
                      (''temperature_unit'', [''celsius'']),
                      (''windspeed_unit'', [''ms'']),
                      (''precipitation_unit'', [''mm''])]\<rparr>
   \<and> Values_Get [(''latitude'', [''52.52'']), (''longitude'', [''13.41'']),
                  (''current_weather'', [''true'']),
                  (''temperature_unit'', [''celsius'']),
                  (''windspeed_unit'', [''ms'']),
                  (''precipitation_unit'', [''mm''])] ''current'' = []
   \<and> Values_Get [(''latitude'', [''52.52'']), (''longitude'', [''13.41'']),
                  (''current_weather'', [''true'']),
                  (''temperature_unit'', [''celsius'']),
                  (''windspeed_unit'', [''ms'']),
                  (''precipitation_unit'', [''mm''])] ''current'' \<noteq>
       ''temperature_2m,relative_humidity_2m,apparent_temperature,is_day,precipitation,rain,showers,snowfall,weather_code,cloud_cover,pressure_msl,surface_pressure,wind_speed_10m,wind_direction_10m,wind_gusts_10m''"
  by (simp add: mock_buildRequestURL mock_FormatFloat_def Values_Get_def)

end
